theory Spec2Isabelle
  imports Complex_Main "HOL-Library.Word" "HOL-Library.Sublist"
begin

section \<open>Strings\<close>

text \<open>
  A JavaScript string is a sequence of UTF-16 code units. The literals of the source are
  ASCII, so each of their characters is one code unit.
\<close>

type_synonym code_unit = "16 word"
type_synonym jsstring = "code_unit list"

definition js :: "string \<Rightarrow> jsstring" where
  "js s = map (\<lambda>c. of_nat (of_char c)) s"

text \<open>
  \<^verbatim>\<open>String.prototype.trim\<close> removes the ECMAScript white space and line terminator
  code points from both ends: TAB, LF, VT, FF, CR, SPACE, NBSP, U+1680, U+2000 to U+200A,
  U+2028, U+2029, U+202F, U+205F, U+3000 and U+FEFF. All of them are single code units.
\<close>

definition is_white :: "code_unit \<Rightarrow> bool" where
  "is_white c =
     (c = 0x0009 \<or> c = 0x000A \<or> c = 0x000B \<or> c = 0x000C \<or> c = 0x000D \<or> c = 0x0020
      \<or> c = 0x00A0 \<or> c = 0x1680 \<or> (0x2000 \<le> c \<and> c \<le> 0x200A) \<or> c = 0x2028
      \<or> c = 0x2029 \<or> c = 0x202F \<or> c = 0x205F \<or> c = 0x3000 \<or> c = 0xFEFF)"

definition trim :: "jsstring \<Rightarrow> jsstring" where
  "trim s = rev (dropWhile is_white (rev (dropWhile is_white s)))"

text \<open>
  A non-negative integer inside a template literal is its decimal numeral, as for
  \<^verbatim>\<open>response.status\<close>.
\<close>

definition digit :: "nat \<Rightarrow> code_unit" where
  "digit d = of_nat (48 + d)"

fun decimal :: "nat \<Rightarrow> jsstring" where
  "decimal n = (if n < 10 then [digit n] else decimal (n div 10) @ [digit (n mod 10)])"

declare decimal.simps [simp del]

section \<open>The plan data model\<close>

text \<open>
  \<^verbatim>\<open>interface Task { id: number; title: string; description: string;
                   status: 'todo' | 'done'; file_path?: string; code_snippet?: string; }\<close>
  \<^verbatim>\<open>interface Plan { title: string; tasks: Task[]; }\<close>

  A task id is a number read from JSON text, so never \<^verbatim>\<open>NaN\<close>: on such numbers
  \<^verbatim>\<open>===\<close> is equality. An optional field is \<open>None\<close> when absent.
\<close>

datatype status = Todo | Done

record Task =
  task_id :: real
  task_title :: jsstring
  description :: jsstring
  status :: status
  file_path :: "jsstring option"
  code_snippet :: "jsstring option"

record Plan =
  title :: jsstring
  tasks :: "Task list"

section \<open>The component state\<close>

text \<open>
  The four \<^verbatim>\<open>useState\<close> cells of \<^verbatim>\<open>App\<close>. \<open>None\<close> is \<^verbatim>\<open>null\<close>. The type of
  the stored plan is a parameter: the toggle handler works on a \<open>Plan\<close>, as its signature
  says, while the submit handler stores whatever \<^verbatim>\<open>JSON.parse\<close> returned.
\<close>

record 'p app_state =
  prompt :: jsstring
  plan :: "'p option"
  isLoading :: bool
  error :: "jsstring option"

section \<open>Toggling a task\<close>

text \<open>
  The function handed to \<^verbatim>\<open>setPlan\<close> by \<^verbatim>\<open>handleToggleTask\<close>:
  \<^verbatim>\<open>prevPlan => { if (!prevPlan) return null;
                 return { ...prevPlan, tasks: prevPlan.tasks.map(task =>
                   task.id === taskId
                     ? { ...task, status: task.status === 'todo' ? 'done' : 'todo' }
                     : task) }; }\<close>
\<close>

definition handleToggleTask_updater :: "real \<Rightarrow> Plan option \<Rightarrow> Plan option" where
  "handleToggleTask_updater taskId prevPlan =
     (case prevPlan of
        None \<Rightarrow> None
      | Some p \<Rightarrow>
          Some (p\<lparr>tasks :=
            map (\<lambda>task.
                  if task_id task = taskId
                  then task\<lparr>status := (if status task = Todo then Done else Todo)\<rparr>
                  else task)
                (tasks p)\<rparr>))"

definition handleToggleTask :: "real \<Rightarrow> Plan app_state \<Rightarrow> Plan app_state" where
  "handleToggleTask taskId st = st\<lparr>plan := handleToggleTask_updater taskId (plan st)\<rparr>"

text \<open>The flip of a status, as the specification words it: todo to done, done to todo.\<close>

fun flipped :: "status \<Rightarrow> status" where
  "flipped Todo = Done"
| "flipped Done = Todo"

section \<open>JavaScript values of the response\<close>

text \<open>
  What \<^verbatim>\<open>response.json()\<close> and \<^verbatim>\<open>JSON.parse\<close> return: \<^verbatim>\<open>null\<close>, booleans,
  numbers, strings, arrays, and objects as their own properties in order. The value
  \<^verbatim>\<open>undefined\<close> of a failed property read is \<open>None\<close> of \<open>json option\<close>.
\<close>

datatype json =
    JNull
  | JBool bool
  | JNumber real
  | JString jsstring
  | JArray "json list"
  | JObject "(jsstring \<times> json) list"

text \<open>
  Truthiness, as \<^verbatim>\<open>if\<close>, \<^verbatim>\<open>&&\<close> and \<^verbatim>\<open>||\<close> test it. A number read from JSON
  text is never \<^verbatim>\<open>NaN\<close>, so zero is the only falsy number.
\<close>

fun truthy :: "json \<Rightarrow> bool" where
  "truthy JNull = False"
| "truthy (JBool b) = b"
| "truthy (JNumber n) = (n \<noteq> 0)"
| "truthy (JString s) = (s \<noteq> [])"
| "truthy (JArray xs) = True"
| "truthy (JObject fs) = True"

text \<open>
  \<^verbatim>\<open>v.k\<close> on a value that is not \<^verbatim>\<open>null\<close>, for the names the handler reads
  (\<^verbatim>\<open>candidates\<close>, \<^verbatim>\<open>content\<close>, \<^verbatim>\<open>parts\<close>, \<^verbatim>\<open>text\<close>): none of them is a
  property of a built-in prototype, so only an object's own property answers.
\<close>

fun get_named :: "jsstring \<Rightarrow> json \<Rightarrow> json option" where
  "get_named k (JObject fs) = map_of fs k"
| "get_named k v = None"

text \<open>
  \<^verbatim>\<open>v[0]\<close> on a value that is not \<^verbatim>\<open>null\<close>: the first element of an array, the first
  code unit of a string as a string, the property \<^verbatim>\<open>"0"\<close> of an object.
\<close>

fun index0 :: "json \<Rightarrow> json option" where
  "index0 (JArray xs) = (case xs of [] \<Rightarrow> None | x # _ \<Rightarrow> Some x)"
| "index0 (JString s) = (case s of [] \<Rightarrow> None | c # _ \<Rightarrow> Some (JString [c]))"
| "index0 (JObject fs) = map_of fs (js ''0'')"
| "index0 v = None"

text \<open>Optional chaining \<^verbatim>\<open>v?.\<close>: \<^verbatim>\<open>undefined\<close> when \<^verbatim>\<open>v\<close> is \<^verbatim>\<open>undefined\<close> or \<^verbatim>\<open>null\<close>.\<close>

definition opt_chain :: "json option \<Rightarrow> (json \<Rightarrow> json option) \<Rightarrow> json option" where
  "opt_chain v f = (case v of None \<Rightarrow> None | Some JNull \<Rightarrow> None | Some x \<Rightarrow> f x)"

section \<open>The runtime and the network\<close>

text \<open>
  A thrown value is an \<^verbatim>\<open>Error\<close> object; the handler reads its \<^verbatim>\<open>message\<close> only.
\<close>

datatype thrown = Thrown (message: jsstring)

text \<open>
  The built-ins the handler calls, supplied by the engine: \<^verbatim>\<open>JSON.parse\<close> applied to a
  value (it converts its argument to a string first) either throws or returns the parsed
  value; reading a property of \<^verbatim>\<open>null\<close> throws a \<^verbatim>\<open>TypeError\<close> whose message is the
  engine's.
\<close>

record runtime =
  JSON_parse :: "json \<Rightarrow> thrown + json"
  null_read :: "jsstring \<Rightarrow> thrown"

text \<open>
  A \<^verbatim>\<open>Response\<close>: its status code, its reason phrase and what \<^verbatim>\<open>response.json()\<close>
  settles to. \<^verbatim>\<open>response.ok\<close> is true for the codes 200 to 299. \<^verbatim>\<open>fetch\<close> itself
  either rejects or resolves to a response.
\<close>

record response =
  response_status :: nat
  statusText :: jsstring
  json_body :: "thrown + json"

definition response_ok :: "response \<Rightarrow> bool" where
  "response_ok r = (200 \<le> response_status r \<and> response_status r \<le> 299)"

datatype fetch_outcome = Rejected thrown | Resolved response

section \<open>Submitting a prompt\<close>

text \<open>
  \<^verbatim>\<open>handleSubmit\<close> up to its first \<^verbatim>\<open>await\<close> (\<^verbatim>\<open>e.preventDefault()\<close> touches no
  cell):
  \<^verbatim>\<open>if (!prompt.trim() || isLoading) return;
    setIsLoading(true); setError(null); setPlan(null);
    ... fetch(apiUrl, { method: 'POST', ..., body: JSON.stringify(payload) })\<close>
  The second component is the request issued, given by the prompt text its payload
  carries (the instruction text and the configuration beside it are constants);
  \<open>None\<close> when no request is issued.
\<close>

definition handleSubmit_begin :: "'p app_state \<Rightarrow> 'p app_state \<times> jsstring option" where
  "handleSubmit_begin st =
     (if trim (prompt st) = [] \<or> isLoading st then (st, None)
      else (st\<lparr>isLoading := True, error := None, plan := None\<rparr>, Some (prompt st)))"

text \<open>
  \<^verbatim>\<open>handleSubmit\<close> is a closure made anew by every render of \<^verbatim>\<open>App\<close>: the
  \<^verbatim>\<open>prompt\<close> and \<^verbatim>\<open>isLoading\<close> it reads are the consts of the render that made it
  (\<^verbatim>\<open>const [isLoading, setIsLoading] = useState(false)\<close>), which a setter does not
  change; the setters write the cells. Here the two consts are given apart from the
  cells. \<open>handleSubmit_begin\<close> is the handler of a render that saw the cells as they
  are.
\<close>

definition handleSubmit_begin_captured ::
  "jsstring \<Rightarrow> bool \<Rightarrow> 'p app_state \<Rightarrow> 'p app_state \<times> jsstring option" where
  "handleSubmit_begin_captured prompt_c isLoading_c st =
     (if trim prompt_c = [] \<or> isLoading_c then (st, None)
      else (st\<lparr>isLoading := True, error := None, plan := None\<rparr>, Some prompt_c))"

text \<open>
  The value of \<^verbatim>\<open>candidate && candidate.content?.parts?.[0]?.text\<close>, where
  \<^verbatim>\<open>candidate\<close> is the value of \<^verbatim>\<open>result.candidates?.[0]\<close>.
\<close>

definition candidate_text :: "json option \<Rightarrow> json option" where
  "candidate_text candidate =
     (case candidate of
        None \<Rightarrow> None
      | Some c \<Rightarrow>
          if \<not> truthy c then Some c
          else opt_chain
                 (opt_chain (opt_chain (get_named (js ''content'') c) (get_named (js ''parts'')))
                    index0)
                 (get_named (js ''text'')))"

text \<open>
  The body of the \<^verbatim>\<open>try\<close> block once \<^verbatim>\<open>fetch\<close> has settled: \<open>Inl\<close> is the value
  thrown, \<open>Inr\<close> the value handed to \<^verbatim>\<open>setPlan\<close>.
  \<^verbatim>\<open>if (!response.ok) throw new Error(`API error: ${response.status} ${response.statusText}`);
    const result = await response.json();
    const candidate = result.candidates?.[0];
    if (candidate && candidate.content?.parts?.[0]?.text) {
      const generatedJsonText = candidate.content.parts[0].text;
      const parsedPlan: Plan = JSON.parse(generatedJsonText);
      setPlan(parsedPlan);
    } else { throw new Error("Invalid response structure from AI model."); }\<close>
\<close>

definition try_block :: "runtime \<Rightarrow> fetch_outcome \<Rightarrow> thrown + json" where
  "try_block rt outcome =
     (case outcome of
        Rejected err \<Rightarrow> Inl err
      | Resolved response \<Rightarrow>
          if \<not> response_ok response
          then Inl (Thrown (js ''API error: '' @ decimal (response_status response)
                             @ js '' '' @ statusText response))
          else
            (case json_body response of
               Inl err \<Rightarrow> Inl err
             | Inr result \<Rightarrow>
                 if result = JNull then Inl (null_read rt (js ''candidates''))
                 else
                   (case candidate_text (opt_chain (get_named (js ''candidates'') result) index0) of
                      None \<Rightarrow> Inl (Thrown (js ''Invalid response structure from AI model.''))
                    | Some generatedJsonText \<Rightarrow>
                        if truthy generatedJsonText then JSON_parse rt generatedJsonText
                        else Inl (Thrown (js ''Invalid response structure from AI model.'')))))"

text \<open>
  The rest of \<^verbatim>\<open>handleSubmit\<close>, run when \<^verbatim>\<open>fetch\<close> has settled: the \<^verbatim>\<open>try\<close> block,
  then
  \<^verbatim>\<open>catch (err: any) { console.error(...);
      setError(err.message || "An unexpected error occurred. Please try again."); }
    finally { setIsLoading(false); }\<close>
  The setters act on the state as it is when \<^verbatim>\<open>fetch\<close> settles. The annotation
  \<^verbatim>\<open>parsedPlan: Plan\<close> checks nothing at run time: what is stored is the parsed value.
  Storing \<^verbatim>\<open>null\<close> with \<^verbatim>\<open>setPlan\<close> empties the plan cell.
\<close>

definition handleSubmit_resume ::
  "runtime \<Rightarrow> fetch_outcome \<Rightarrow> json app_state \<Rightarrow> json app_state" where
  "handleSubmit_resume rt outcome st =
     (case try_block rt outcome of
        Inr parsedPlan \<Rightarrow>
          st\<lparr>plan := (if parsedPlan = JNull then None else Some parsedPlan), isLoading := False\<rparr>
      | Inl err \<Rightarrow>
          st\<lparr>error := Some (if message err \<noteq> [] then message err
                             else js ''An unexpected error occurred. Please try again.''),
             isLoading := False\<rparr>)"

text \<open>One whole run of \<^verbatim>\<open>handleSubmit\<close>, with the outcome \<^verbatim>\<open>fetch\<close> will have.\<close>

definition handleSubmit ::
  "runtime \<Rightarrow> fetch_outcome \<Rightarrow> json app_state \<Rightarrow> json app_state \<times> jsstring option" where
  "handleSubmit rt outcome st =
     (case handleSubmit_begin st of
        (st', None) \<Rightarrow> (st', None)
      | (st', Some request) \<Rightarrow> (handleSubmit_resume rt outcome st', Some request))"

section \<open>The component as an event system\<close>

text \<open>
  The component runs on one thread and each event runs to its next \<^verbatim>\<open>await\<close>. The
  events: the user edits the prompt, a submit event reaches the form, the oldest request
  in flight settles, some handler calls \<^verbatim>\<open>setPlan\<close> with an updater (as
  \<^verbatim>\<open>handleToggleTask\<close> does), and React commits a render. A configuration is the cells,
  the cells as the last committed render saw them (the consts its handlers close over),
  and the number of requests issued and not yet settled. A submit event runs the
  \<^verbatim>\<open>handleSubmit\<close> of the last committed render.
\<close>

datatype event =
    SetPrompt jsstring
  | Submit
  | Settle fetch_outcome
  | SetPlan "json option \<Rightarrow> json option"
  | Commit

record config =
  app :: "json app_state"
  rendered :: "json app_state"
  in_flight :: nat

fun fire :: "runtime \<Rightarrow> config \<Rightarrow> event \<Rightarrow> config" where
  "fire rt c (SetPrompt s) = c\<lparr>app := (app c)\<lparr>prompt := s\<rparr>\<rparr>"
| "fire rt c Submit =
     (case handleSubmit_begin_captured (prompt (rendered c)) (isLoading (rendered c)) (app c) of
        (st, None) \<Rightarrow> c\<lparr>app := st\<rparr>
      | (st, Some request) \<Rightarrow> c\<lparr>app := st, in_flight := Suc (in_flight c)\<rparr>)"
| "fire rt c (Settle outcome) =
     (if in_flight c = 0 then c
      else c\<lparr>app := handleSubmit_resume rt outcome (app c), in_flight := in_flight c - 1\<rparr>)"
| "fire rt c (SetPlan f) = c\<lparr>app := (app c)\<lparr>plan := f (plan (app c))\<rparr>\<rparr>"
| "fire rt c Commit = c\<lparr>rendered := app c\<rparr>"



section \<open>The vocabulary of the specification\<close>

text \<open>
  The lifecycle state the specification speaks of, read off the cells the way the view
  does: loading while \<^verbatim>\<open>isLoading\<close>, otherwise error when a message is stored, otherwise
  success when a plan is stored, otherwise idle.
\<close>

datatype lifecycle = Idle | Loading | Success | Error

definition lifecycle_of :: "'p app_state \<Rightarrow> lifecycle" where
  "lifecycle_of st =
     (if isLoading st then Loading
      else if error st \<noteq> None then Error
      else if plan st \<noteq> None then Success
      else Idle)"

text \<open>
  A submission is accepted when the trimmed prompt is not empty and no request is in
  flight.
\<close>

definition accepted :: "'p app_state \<Rightarrow> bool" where
  "accepted st = (trim (prompt st) \<noteq> [] \<and> \<not> isLoading st)"

text \<open>
  The nested text field of the envelope, found by descending from the document through
  \<^verbatim>\<open>candidates\<close>, element 0, \<^verbatim>\<open>content\<close>, \<^verbatim>\<open>parts\<close>, element 0, \<^verbatim>\<open>text\<close>. A name
  selects a member of an object; an index selects an element of an array, or the member
  of an object named by the index's numeral. The envelope lacks the payload when the
  descent fails.
\<close>

datatype selector = Key jsstring | Index nat

fun descend :: "selector \<Rightarrow> json \<Rightarrow> json option" where
  "descend (Key k) (JObject fs) = map_of fs k"
| "descend (Index n) (JObject fs) = map_of fs (decimal n)"
| "descend (Index n) (JArray xs) = (if n < length xs then Some (xs ! n) else None)"
| "descend s v = None"

fun lookup_path :: "selector list \<Rightarrow> json \<Rightarrow> json option" where
  "lookup_path [] v = Some v"
| "lookup_path (s # ss) v = (case descend s v of None \<Rightarrow> None | Some w \<Rightarrow> lookup_path ss w)"

definition text_path :: "selector list" where
  "text_path = [Key (js ''candidates''), Index 0, Key (js ''content''),
                Key (js ''parts''), Index 0, Key (js ''text'')]"

text \<open>
  The Plan shape of the data model: an object with a string \<^verbatim>\<open>title\<close> and an array
  \<^verbatim>\<open>tasks\<close> of objects, each with an integer \<^verbatim>\<open>id\<close>, strings \<^verbatim>\<open>title\<close> and
  \<^verbatim>\<open>description\<close>, a \<^verbatim>\<open>status\<close> that is \<^verbatim>\<open>"todo"\<close> or \<^verbatim>\<open>"done"\<close>, and, when present,
  strings \<^verbatim>\<open>file_path\<close> and \<^verbatim>\<open>code_snippet\<close>.
\<close>

definition as_status :: "json option \<Rightarrow> status option" where
  "as_status v =
     (if v = Some (JString (js ''todo'')) then Some Todo
      else if v = Some (JString (js ''done'')) then Some Done
      else None)"

definition as_optional_string :: "json option \<Rightarrow> jsstring option option" where
  "as_optional_string v =
     (case v of None \<Rightarrow> Some None | Some (JString s) \<Rightarrow> Some (Some s) | Some w \<Rightarrow> None)"

definition as_task :: "json \<Rightarrow> Task option" where
  "as_task v =
     (case v of
        JObject fs \<Rightarrow>
          (case (map_of fs (js ''id''), map_of fs (js ''title''), map_of fs (js ''description''),
                 as_status (map_of fs (js ''status'')),
                 as_optional_string (map_of fs (js ''file_path'')),
                 as_optional_string (map_of fs (js ''code_snippet''))) of
             (Some (JNumber n), Some (JString t), Some (JString d), Some s, Some fp, Some cs) \<Rightarrow>
               if n = of_int \<lfloor>n\<rfloor>
               then Some \<lparr>task_id = n, task_title = t, description = d, status = s,
                           file_path = fp, code_snippet = cs\<rparr>
               else None
           | other \<Rightarrow> None)
      | other \<Rightarrow> None)"

definition as_plan :: "json \<Rightarrow> Plan option" where
  "as_plan v =
     (case v of
        JObject fs \<Rightarrow>
          (case (map_of fs (js ''title''), map_of fs (js ''tasks'')) of
             (Some (JString t), Some (JArray xs)) \<Rightarrow>
               (case those (map as_task xs) of
                  Some ts \<Rightarrow> Some \<lparr>title = t, tasks = ts\<rparr>
                | None \<Rightarrow> None)
           | other \<Rightarrow> None)
      | other \<Rightarrow> None)"

text \<open>
  The part of the descent below the candidate, and the text a descent yields when it is
  usable as one: present and truthy.
\<close>

definition rest_path :: "selector list" where
  "rest_path = [Key (js ''content''), Key (js ''parts''), Index 0, Key (js ''text'')]"

definition usable :: "json option \<Rightarrow> json option" where
  "usable v = (case v of None \<Rightarrow> None | Some t \<Rightarrow> if truthy t then Some t else None)"

section \<open>Concrete inputs\<close>

text \<open>
  A plan of two tasks; component states with a blank prompt, with a prompt ready to
  submit over an older plan and error, and with no plan stored; an engine whose
  \<^verbatim>\<open>JSON.parse\<close> accepts the text of the empty object and rejects the other texts used
  here; an envelope carrying a given text, and responses around it.
\<close>

definition demo_task1 :: Task where
  "demo_task1 = \<lparr>task_id = 1, task_title = js ''Create form'', description = js ''...'',
     status = Todo, file_path = None, code_snippet = None\<rparr>"

definition demo_task2 :: Task where
  "demo_task2 = \<lparr>task_id = 2, task_title = js ''Add route'', description = js ''wire it'',
     status = Done, file_path = Some (js ''src/app.ts''), code_snippet = None\<rparr>"

definition demo_plan :: Plan where
  "demo_plan = \<lparr>title = js ''Add login'', tasks = [demo_task1, demo_task2]\<rparr>"

definition demo_runtime :: runtime where
  "demo_runtime =
     \<lparr>JSON_parse = (\<lambda>v. if v = JString (js ''{}'') then Inr (JObject [])
                        else Inl (Thrown (js ''Unexpected end of JSON input''))),
      null_read = (\<lambda>k. Thrown (js ''Cannot read properties of null''))\<rparr>"

definition blank_state :: "json app_state" where
  "blank_state = \<lparr>prompt = js '' '', plan = Some (JObject []), isLoading = False,
                   error = Some (js ''old'')\<rparr>"

definition ready_state :: "json app_state" where
  "ready_state = \<lparr>prompt = js ''Add login'', plan = Some (JObject []), isLoading = False,
                   error = Some (js ''old'')\<rparr>"

definition idle_plan_state :: "Plan app_state" where
  "idle_plan_state = \<lparr>prompt = js ''Add login'', plan = None, isLoading = False, error = None\<rparr>"

definition envelope :: "json \<Rightarrow> json" where
  "envelope t =
     JObject [(js ''candidates'',
       JArray [JObject [(js ''content'',
         JObject [(js ''parts'', JArray [JObject [(js ''text'', t)]])])]])]"

definition ok_response :: "json \<Rightarrow> response" where
  "ok_response result = \<lparr>response_status = 200, statusText = js ''OK'', json_body = Inr result\<rparr>"

definition server_error_response :: response where
  "server_error_response =
     \<lparr>response_status = 500, statusText = js ''Internal Server Error'',
      json_body = Inl (Thrown (js ''Unexpected end of JSON input''))\<rparr>"

section \<open>Toggling: the properties\<close>

lemma toggle_flip: "(if s = Todo then Done else Todo) = flipped s"
  by (cases s) simp_all

lemma updater_Some:
  "handleToggleTask_updater i (Some P) =
     Some (P\<lparr>tasks := map (\<lambda>t. if task_id t = i then t\<lparr>status := flipped (status t)\<rparr> else t)
                          (tasks P)\<rparr>)"
  by (simp add: handleToggleTask_updater_def toggle_flip)

lemma distinct_unique_index:
  assumes "distinct (map f xs)" and "i \<in> set (map f xs)"
  shows "\<exists>!k. k < length xs \<and> f (xs ! k) = i"
proof -
  from assms(2) obtain k where k: "k < length xs" "f (xs ! k) = i"
    by (auto simp: in_set_conv_nth)
  show ?thesis
  proof (rule ex1I [of _ k])
    show "k < length xs \<and> f (xs ! k) = i" using k by simp
  next
    fix j assume j: "j < length xs \<and> f (xs ! j) = i"
    then show "j = k" using nth_eq_iff_index_eq [OF assms(1), of j k] k by simp
  qed
qed

text \<open>
  C1. For a plan whose task ids are distinct and an id that occurs in it, the updater of
  \<^verbatim>\<open>handleToggleTask\<close> returns a plan with the same title and as many tasks; exactly one
  position holds the id; the task there has its status flipped and no other field
  changed, and the task at every other position is the same.
\<close>

theorem toggle_present:
  assumes "distinct (map task_id (tasks P))" and "i \<in> set (map task_id (tasks P))"
  shows "\<exists>P'. handleToggleTask_updater i (Some P) = Some P'
           \<and> title P' = title P
           \<and> length (tasks P') = length (tasks P)
           \<and> (\<exists>!k. k < length (tasks P) \<and> task_id (tasks P ! k) = i)
           \<and> (\<forall>k < length (tasks P).
                 tasks P' ! k =
                   (if task_id (tasks P ! k) = i
                    then (tasks P ! k)\<lparr>status := flipped (status (tasks P ! k))\<rparr>
                    else tasks P ! k))"
  using distinct_unique_index [OF assms] by (simp add: updater_Some)

theorem toggle_present_witness:
  "handleToggleTask_updater 1 (Some demo_plan)
     = Some (demo_plan\<lparr>tasks := [demo_task1\<lparr>status := Done\<rparr>, demo_task2]\<rparr>)"
proof -
  have d: "distinct (map task_id (tasks demo_plan))"
    by (simp add: demo_plan_def demo_task1_def demo_task2_def)
  have m: "1 \<in> set (map task_id (tasks demo_plan))"
    by (simp add: demo_plan_def demo_task1_def demo_task2_def)
  from toggle_present [OF d m] obtain P' where
    P': "handleToggleTask_updater 1 (Some demo_plan) = Some P'"
    and t: "title P' = title demo_plan"
    and l: "length (tasks P') = length (tasks demo_plan)"
    and n: "\<forall>k < length (tasks demo_plan).
                 tasks P' ! k =
                   (if task_id (tasks demo_plan ! k) = 1
                    then (tasks demo_plan ! k)\<lparr>status := flipped (status (tasks demo_plan ! k))\<rparr>
                    else tasks demo_plan ! k)"
    by blast
  have l2: "length (tasks P') = 2" using l by (simp add: demo_plan_def)
  have "tasks P' ! 0 = demo_task1\<lparr>status := Done\<rparr>"
    using n [rule_format, of 0] by (simp add: demo_plan_def demo_task1_def)
  moreover have "tasks P' ! 1 = demo_task2"
    using n [rule_format, of 1] by (simp add: demo_plan_def demo_task1_def demo_task2_def)
  ultimately have "tasks P' = [demo_task1\<lparr>status := Done\<rparr>, demo_task2]"
    using l2 by (auto simp: list_eq_iff_nth_eq less_Suc_eq numeral_2_eq_2)
  moreover have "P' = \<lparr>title = title P', tasks = tasks P'\<rparr>" by simp
  ultimately have "P' = demo_plan\<lparr>tasks := [demo_task1\<lparr>status := Done\<rparr>, demo_task2]\<rparr>"
    using t by (simp add: demo_plan_def)
  with P' show ?thesis by simp
qed

text \<open>
  C2. For an id that no task of the plan has, the updater returns the plan itself: the
  same title and the same tasks in the same order.
\<close>

theorem toggle_absent:
  assumes "taskId \<notin> task_id ` set (tasks P)"
  shows "handleToggleTask_updater taskId (Some P) = Some P"
proof -
  have "map (\<lambda>t. if task_id t = taskId then t\<lparr>status := flipped (status t)\<rparr> else t) (tasks P)
          = tasks P"
    using assms by (intro map_idI) auto
  then show ?thesis by (simp add: updater_Some)
qed

theorem toggle_absent_witness:
  "handleToggleTask_updater 7 (Some demo_plan) = Some demo_plan"
proof -
  have "7 \<notin> task_id ` set (tasks demo_plan)"
    by (simp add: demo_plan_def demo_task1_def demo_task2_def)
  from toggle_absent [OF this] show ?thesis .
qed

text \<open>
  C3. Applying the updater twice with the same id gives back the plan it started from,
  whatever the plan and the id (and an empty cell stays empty).
\<close>

theorem toggle_twice:
  "handleToggleTask_updater taskId (handleToggleTask_updater taskId prevPlan) = prevPlan"
proof (cases prevPlan)
  case None
  then show ?thesis by (simp add: handleToggleTask_updater_def)
next
  case (Some P)
  have "map ((\<lambda>t. if task_id t = taskId then t\<lparr>status := flipped (status t)\<rparr> else t)
              \<circ> (\<lambda>t. if task_id t = taskId then t\<lparr>status := flipped (status t)\<rparr> else t))
            (tasks P) = tasks P"
  proof (intro map_idI)
    fix t
    show "((\<lambda>t. if task_id t = taskId then t\<lparr>status := flipped (status t)\<rparr> else t)
            \<circ> (\<lambda>t. if task_id t = taskId then t\<lparr>status := flipped (status t)\<rparr> else t)) t = t"
      by (cases "status t") simp_all
  qed
  with Some show ?thesis by (simp add: updater_Some)
qed

text \<open>
  C10. With no plan stored, the updater returns \<^verbatim>\<open>null\<close> for every id, so
  \<^verbatim>\<open>handleToggleTask\<close> leaves the whole state as it was; the updater has no failing
  branch.
\<close>

theorem toggle_without_plan:
  "handleToggleTask_updater taskId None = None
   \<and> (plan st = None \<longrightarrow> handleToggleTask taskId st = st)"
  by (simp add: handleToggleTask_def handleToggleTask_updater_def)

theorem toggle_without_plan_witness:
  "plan idle_plan_state = None \<and> handleToggleTask 3 idle_plan_state = idle_plan_state"
proof -
  have p: "plan idle_plan_state = None" by (simp add: idle_plan_state_def)
  from toggle_without_plan [of 3 idle_plan_state] p show ?thesis by simp
qed

section \<open>Submitting: the guard and the two halves\<close>

lemma trim_blank:
  assumes "\<forall>c\<in>set s. is_white c"
  shows "trim s = []"
proof -
  have d: "dropWhile is_white s = []" using assms by simp
  show ?thesis unfolding trim_def d by simp
qed

lemma trim_empty_blank:
  assumes "trim s = []"
  shows "\<forall>c\<in>set s. is_white c"
proof -
  from assms have a: "\<forall>c\<in>set (dropWhile is_white s). is_white c"
    by (simp add: trim_def)
  have "dropWhile is_white s = []"
  proof (rule ccontr)
    assume n: "dropWhile is_white s \<noteq> []"
    then have "\<not> is_white (hd (dropWhile is_white s))" by (rule hd_dropWhile)
    moreover have "hd (dropWhile is_white s) \<in> set (dropWhile is_white s)"
      using n by (rule hd_in_set)
    ultimately show False using a by blast
  qed
  then show ?thesis by simp
qed

lemma accepted_ready: "accepted ready_state"
  by (simp add: accepted_def ready_state_def trim_def js_def is_white_def)

lemma begin_accepted:
  "accepted st \<Longrightarrow>
   handleSubmit_begin st = (st\<lparr>isLoading := True, error := None, plan := None\<rparr>, Some (prompt st))"
  by (simp add: accepted_def handleSubmit_begin_def)

lemma handleSubmit_accepted:
  "accepted st \<Longrightarrow>
   handleSubmit rt outcome st =
     (handleSubmit_resume rt outcome (st\<lparr>isLoading := True, error := None, plan := None\<rparr>),
      Some (prompt st))"
  by (simp add: handleSubmit_def begin_accepted)

lemma resume_thrown:
  "try_block rt outcome = Inl err \<Longrightarrow>
   handleSubmit_resume rt outcome st =
     st\<lparr>error := Some (if message err \<noteq> [] then message err
                        else js ''An unexpected error occurred. Please try again.''),
        isLoading := False\<rparr>"
  by (simp add: handleSubmit_resume_def)

lemma resume_parsed:
  "try_block rt outcome = Inr v \<Longrightarrow>
   handleSubmit_resume rt outcome st =
     st\<lparr>plan := (if v = JNull then None else Some v), isLoading := False\<rparr>"
  by (simp add: handleSubmit_resume_def)

lemma fallback_nonempty: "js ''An unexpected error occurred. Please try again.'' \<noteq> []"
  by (simp add: js_def)

text \<open>
  C4. When every code unit of the prompt is white space (the empty prompt included), so
  that the trimmed prompt is empty, \<^verbatim>\<open>handleSubmit\<close> issues no request and returns the
  state it was given: loading flag, plan and error message are the same, and no error
  is stored.
\<close>

theorem blank_prompt_ignored:
  assumes "\<forall>c\<in>set (prompt st). is_white c"
  shows "handleSubmit rt outcome st = (st, None)"
  using assms by (simp add: handleSubmit_def handleSubmit_begin_def trim_blank)

theorem blank_prompt_ignored_witness:
  "handleSubmit demo_runtime (Rejected (Thrown (js ''Failed to fetch''))) blank_state
     = (blank_state, None)"
proof -
  have "\<forall>c\<in>set (prompt blank_state). is_white c"
    by (simp add: blank_state_def js_def is_white_def)
  from blank_prompt_ignored [OF this] show ?thesis .
qed

section \<open>Requests in flight\<close>

lemma begin_captured_current:
  "handleSubmit_begin st = handleSubmit_begin_captured (prompt st) (isLoading st) st"
  by (simp add: handleSubmit_begin_def handleSubmit_begin_captured_def)

text \<open>
  A handler made by a render that saw \<^verbatim>\<open>isLoading\<close> set issues no request and leaves
  the cells as they are.
\<close>

lemma captured_loading_ignored:
  "isLoading_c \<Longrightarrow> handleSubmit_begin_captured prompt_c isLoading_c st = (st, None)"
  by (simp add: handleSubmit_begin_captured_def)

lemma loading_ignored:
  "isLoading st \<Longrightarrow> handleSubmit rt outcome st = (st, None)"
  by (simp add: handleSubmit_def handleSubmit_begin_def)

text \<open>
  When a render is committed after every event, so that each handler sees the cells as
  they are, the number of requests in flight is one while loading and none otherwise.
\<close>

lemma committed_step:
  assumes "rendered c = app c"
    and "in_flight c = (if isLoading (app c) then 1 else 0)"
  shows "rendered (fire rt (fire rt c ev) Commit) = app (fire rt (fire rt c ev) Commit)
     \<and> in_flight (fire rt (fire rt c ev) Commit)
         = (if isLoading (app (fire rt (fire rt c ev) Commit)) then 1 else 0)"
proof (cases ev)
  case (SetPrompt s)
  then show ?thesis using assms by simp
next
  case Submit
  then show ?thesis using assms by (simp add: handleSubmit_begin_captured_def)
next
  case (Settle outcome)
  then show ?thesis using assms
    by (simp add: handleSubmit_resume_def split: sum.splits)
next
  case (SetPlan f)
  then show ?thesis using assms by simp
next
  case Commit
  then show ?thesis using assms by simp
qed

lemma committed_run:
  assumes "rendered c = app c"
    and "in_flight c = (if isLoading (app c) then 1 else 0)"
  shows "in_flight (foldl (fire rt) c (concat (map (\<lambda>ev. [ev, Commit]) evs))) \<le> 1"
  using assms
proof (induction evs arbitrary: c)
  case Nil
  then show ?case by simp
next
  case (Cons ev evs)
  from committed_step [OF Cons.prems, of rt ev]
  have "in_flight (foldl (fire rt) (fire rt (fire rt c ev) Commit)
          (concat (map (\<lambda>ev. [ev, Commit]) evs))) \<le> 1"
    by (intro Cons.IH) simp_all
  then show ?case by simp
qed


section \<open>The lifecycle of an accepted submission\<close>

text \<open>
  C6. For an accepted submission, \<^verbatim>\<open>handleSubmit\<close> issues a request carrying the prompt
  and enters the loading state with the plan and the error message both cleared;
  whatever \<^verbatim>\<open>fetch\<close> settles to, if the run ends in the error state then no plan is
  stored and the stored message is a non-empty string.
\<close>

theorem accepted_submission_clears:
  assumes "accepted st"
  shows "snd (handleSubmit_begin st) = Some (prompt st)
     \<and> lifecycle_of (fst (handleSubmit_begin st)) = Loading
     \<and> plan (fst (handleSubmit_begin st)) = None
     \<and> error (fst (handleSubmit_begin st)) = None
     \<and> (\<forall>outcome. lifecycle_of (fst (handleSubmit rt outcome st)) = Error \<longrightarrow>
           plan (fst (handleSubmit rt outcome st)) = None
           \<and> (\<exists>m. error (fst (handleSubmit rt outcome st)) = Some m \<and> m \<noteq> []))"
proof -
  have later: "plan (fst (handleSubmit rt outcome st)) = None
           \<and> (\<exists>m. error (fst (handleSubmit rt outcome st)) = Some m \<and> m \<noteq> [])"
    if f: "lifecycle_of (fst (handleSubmit rt outcome st)) = Error" for outcome
  proof (cases "try_block rt outcome")
    case (Inl err)
    show ?thesis
      using assms by (simp add: handleSubmit_accepted resume_thrown [OF Inl] fallback_nonempty)
  next
    case (Inr v)
    have "lifecycle_of (fst (handleSubmit rt outcome st)) \<noteq> Error"
      using assms by (simp add: handleSubmit_accepted resume_parsed [OF Inr] lifecycle_of_def)
    with f show ?thesis by simp
  qed
  show ?thesis using assms later by (simp add: begin_accepted lifecycle_of_def)
qed

theorem accepted_submission_clears_witness:
  "accepted ready_state
   \<and> plan ready_state = Some (JObject [])
   \<and> error ready_state = Some (js ''old'')
   \<and> plan (fst (handleSubmit_begin ready_state)) = None
   \<and> error (fst (handleSubmit_begin ready_state)) = None
   \<and> lifecycle_of (fst (handleSubmit demo_runtime (Rejected (Thrown (js ''Failed to fetch'')))
        ready_state)) = Error
   \<and> plan (fst (handleSubmit demo_runtime (Rejected (Thrown (js ''Failed to fetch'')))
        ready_state)) = None
   \<and> error (fst (handleSubmit demo_runtime (Rejected (Thrown (js ''Failed to fetch'')))
        ready_state)) = Some (js ''Failed to fetch'')"
proof -
  let ?out = "Rejected (Thrown (js ''Failed to fetch''))"
  have tb: "try_block demo_runtime ?out = Inl (Thrown (js ''Failed to fetch''))"
    by (simp add: try_block_def)
  have ne: "js ''Failed to fetch'' \<noteq> []" by (simp add: js_def)
  have e: "error (fst (handleSubmit demo_runtime ?out ready_state)) = Some (js ''Failed to fetch'')"
    using ne by (simp add: handleSubmit_accepted [OF accepted_ready] resume_thrown [OF tb])
  then have f: "lifecycle_of (fst (handleSubmit demo_runtime ?out ready_state)) = Error"
    by (simp add: lifecycle_of_def handleSubmit_accepted [OF accepted_ready] resume_thrown [OF tb])
  from accepted_submission_clears [OF accepted_ready, of demo_runtime]
  have c: "plan (fst (handleSubmit_begin ready_state)) = None"
    "error (fst (handleSubmit_begin ready_state)) = None"
    "\<forall>outcome. lifecycle_of (fst (handleSubmit demo_runtime outcome ready_state)) = Error \<longrightarrow>
           plan (fst (handleSubmit demo_runtime outcome ready_state)) = None
           \<and> (\<exists>m. error (fst (handleSubmit demo_runtime outcome ready_state)) = Some m \<and> m \<noteq> [])"
    by blast+
  from c(3) f have "plan (fst (handleSubmit demo_runtime ?out ready_state)) = None" by blast
  with c(1,2) e f accepted_ready show ?thesis by (simp add: ready_state_def)
qed

section \<open>Transport failure\<close>

lemma try_block_not_ok:
  "\<not> response_ok r \<Longrightarrow>
   try_block rt (Resolved r) =
     Inl (Thrown (js ''API error: '' @ decimal (response_status r) @ js '' '' @ statusText r))"
  by (simp add: try_block_def)

lemma decimal_500: "decimal 500 = js ''500''"
  by (simp add: decimal.simps js_def digit_def)

text \<open>
  C7. When the response to an accepted submission has a status outside 200 to 299, the
  run ends in the error state, with no plan stored and the message
  \<^verbatim>\<open>API error: \<close> followed by the decimal status code, a space and the reason phrase;
  for the status 500 the stored message contains \<^verbatim>\<open>500\<close>.
\<close>

theorem transport_failure_message:
  assumes "accepted st" and "\<not> response_ok r"
  shows "fst (handleSubmit rt (Resolved r) st) =
           st\<lparr>plan := None, isLoading := False,
              error := Some (js ''API error: '' @ decimal (response_status r) @ js '' ''
                               @ statusText r)\<rparr>
     \<and> lifecycle_of (fst (handleSubmit rt (Resolved r) st)) = Error
     \<and> (response_status r = 500 \<longrightarrow>
          (\<exists>m. error (fst (handleSubmit rt (Resolved r) st)) = Some m \<and> sublist (js ''500'') m))"
proof -
  let ?msg = "js ''API error: '' @ decimal (response_status r) @ js '' '' @ statusText r"
  have ne: "?msg \<noteq> []" by (simp add: js_def)
  have st': "fst (handleSubmit rt (Resolved r) st) =
               st\<lparr>plan := None, isLoading := False, error := Some ?msg\<rparr>"
    using assms(1) ne
    by (simp add: handleSubmit_accepted resume_thrown [OF try_block_not_ok [OF assms(2)]])
  have "sublist (js ''500'') ?msg" if "response_status r = 500"
    unfolding that decimal_500 sublist_def by blast
  with st' show ?thesis by (simp add: lifecycle_of_def)
qed

theorem transport_failure_message_witness:
  "accepted ready_state \<and> \<not> response_ok server_error_response
   \<and> error (fst (handleSubmit demo_runtime (Resolved server_error_response) ready_state))
       = Some (js ''API error: 500 Internal Server Error'')
   \<and> lifecycle_of (fst (handleSubmit demo_runtime (Resolved server_error_response) ready_state))
       = Error
   \<and> plan (fst (handleSubmit demo_runtime (Resolved server_error_response) ready_state)) = None"
proof -
  have n: "\<not> response_ok server_error_response"
    by (simp add: response_ok_def server_error_response_def)
  have m: "js ''API error: '' @ decimal (response_status server_error_response) @ js '' ''
             @ statusText server_error_response = js ''API error: 500 Internal Server Error''"
    by (simp add: server_error_response_def decimal_500 js_def)
  from transport_failure_message [OF accepted_ready n, of demo_runtime] m accepted_ready n
  show ?thesis by (simp add: lifecycle_of_def)
qed

section \<open>The envelope\<close>

text \<open>
  What the handler reads with property accesses and optional chaining is what the
  descent along the path finds, whenever that is usable as a text.
\<close>

lemma get_named_descend: "get_named k v = descend (Key k) v"
  by (cases v) simp_all

lemma decimal_0: "decimal 0 = js ''0''"
  by (simp add: decimal.simps js_def digit_def)

lemma named_chain:
  "opt_chain w (get_named k) = Option.bind w (descend (Key k))"
proof (cases w)
  case None
  then show ?thesis by (simp add: opt_chain_def)
next
  case (Some x)
  then show ?thesis by (cases x) (simp_all add: opt_chain_def)
qed

lemma index0_cases:
  "index0 x = descend (Index 0) x
   \<or> (descend (Index 0) x = None \<and> (\<exists>c. index0 x = Some (JString [c])))"
proof (cases x)
  case (JArray xs)
  then show ?thesis by (cases xs) simp_all
next
  case (JString s)
  then show ?thesis by (cases s) simp_all
qed (simp_all add: decimal_0)

lemma index_chain_cases:
  "opt_chain w index0 = Option.bind w (descend (Index 0))
   \<or> (Option.bind w (descend (Index 0)) = None \<and> (\<exists>c. opt_chain w index0 = Some (JString [c])))"
proof (cases w)
  case None
  then show ?thesis by (simp add: opt_chain_def)
next
  case (Some x)
  show ?thesis
  proof (cases "x = JNull")
    case True
    with Some show ?thesis by (simp add: opt_chain_def)
  next
    case False
    then have "opt_chain (Some x) index0 = index0 x"
      by (cases x) (simp_all add: opt_chain_def)
    with Some index0_cases [of x] show ?thesis by simp
  qed
qed

lemma index_then_named:
  "opt_chain (opt_chain w index0) (get_named k)
     = Option.bind (Option.bind w (descend (Index 0))) (descend (Key k))"
  using index_chain_cases [of w]
proof (elim disjE conjE exE)
  assume "opt_chain w index0 = Option.bind w (descend (Index 0))"
  then show ?thesis by (simp only: named_chain)
next
  fix c
  assume a: "Option.bind w (descend (Index 0)) = None"
    and b: "opt_chain w index0 = Some (JString [c])"
  show ?thesis unfolding a b by (simp add: opt_chain_def)
qed

lemma lookup_rest:
  "lookup_path rest_path c =
     Option.bind (Option.bind (Option.bind (descend (Key (js ''content'')) c)
        (descend (Key (js ''parts'')))) (descend (Index 0))) (descend (Key (js ''text'')))"
  by (simp add: rest_path_def split: option.splits)

lemma lookup_text:
  "lookup_path text_path result =
     Option.bind (Option.bind (descend (Key (js ''candidates'')) result) (descend (Index 0)))
       (lookup_path rest_path)"
  by (simp add: text_path_def rest_path_def split: option.splits)

lemma truthy_candidate_text:
  assumes "truthy c"
  shows "candidate_text (Some c) = lookup_path rest_path c"
proof -
  have "opt_chain (get_named (js ''content'') c) (get_named (js ''parts''))
          = Option.bind (descend (Key (js ''content'')) c) (descend (Key (js ''parts'')))"
    by (simp add: named_chain get_named_descend)
  then show ?thesis using assms
    by (simp add: candidate_text_def index_then_named lookup_rest)
qed

lemma falsy_no_descent: "\<not> truthy c \<Longrightarrow> descend s c = None"
  by (cases c; cases s) simp_all

lemma falsy_lookup_rest: "\<not> truthy c \<Longrightarrow> lookup_path rest_path c = None"
  by (simp add: rest_path_def falsy_no_descent)

lemma string_lookup_rest: "lookup_path rest_path (JString s) = None"
  by (simp add: rest_path_def)

lemma candidate_text_lookup:
  "usable (candidate_text (opt_chain (get_named (js ''candidates'') result) index0))
     = usable (lookup_path text_path result)"
proof -
  let ?w = "get_named (js ''candidates'') result"
  let ?cand = "opt_chain ?w index0"
  let ?s = "Option.bind ?w (descend (Index 0))"
  have spec: "lookup_path text_path result = Option.bind ?s (lookup_path rest_path)"
    by (simp add: lookup_text get_named_descend)
  from index_chain_cases [of ?w]
  consider (same) "?cand = ?s" | (str) c where "?s = None" "?cand = Some (JString [c])"
    by blast
  then show ?thesis
  proof cases
    case same
    show ?thesis
    proof (cases ?s)
      case None
      with same spec show ?thesis by (simp add: candidate_text_def)
    next
      case (Some c)
      show ?thesis
      proof (cases "truthy c")
        case True
        with Some same spec show ?thesis by (simp add: truthy_candidate_text)
      next
        case False
        with Some same spec show ?thesis
          by (simp add: candidate_text_def usable_def falsy_lookup_rest)
      qed
    qed
  next
    case str
    then show ?thesis using spec
      by (simp add: truthy_candidate_text string_lookup_rest)
  qed
qed

lemma try_block_envelope:
  assumes "response_ok r" and "json_body r = Inr result" and "result \<noteq> JNull"
  shows "try_block rt (Resolved r) =
           (case usable (lookup_path text_path result) of
              None \<Rightarrow> Inl (Thrown (js ''Invalid response structure from AI model.''))
            | Some t \<Rightarrow> JSON_parse rt t)"
proof -
  let ?ct = "candidate_text (opt_chain (get_named (js ''candidates'') result) index0)"
  have "try_block rt (Resolved r) =
           (case usable ?ct of
              None \<Rightarrow> Inl (Thrown (js ''Invalid response structure from AI model.''))
            | Some t \<Rightarrow> JSON_parse rt t)"
    using assms by (simp add: try_block_def usable_def split: option.splits)
  then show ?thesis by (simp only: candidate_text_lookup)
qed

lemma try_block_null_body:
  assumes "response_ok r" and "json_body r = Inr JNull"
  shows "try_block rt (Resolved r) = Inl (null_read rt (js ''candidates''))"
  using assms by (simp add: try_block_def)

lemma lookup_envelope: "lookup_path text_path (envelope t) = Some t"
  by (simp add: text_path_def envelope_def decimal_0)

lemma ok_response_ok: "response_ok (ok_response result)"
  by (simp add: response_ok_def ok_response_def)

text \<open>
  When the response to an accepted submission has a success status and its body is a
  JSON document, other than \<^verbatim>\<open>null\<close>, in which the descent to the text field fails (no
  candidate, or a missing \<^verbatim>\<open>content\<close>, \<^verbatim>\<open>parts\<close> or \<^verbatim>\<open>text\<close>), the run ends in the
  error state with no plan stored and the message
  \<^verbatim>\<open>Invalid response structure from AI model.\<close>
\<close>

lemma missing_text_payload:
  assumes "accepted st" and "response_ok r" and "json_body r = Inr result"
    and "result \<noteq> JNull" and "lookup_path text_path result = None"
  shows "fst (handleSubmit rt (Resolved r) st) =
           st\<lparr>plan := None, isLoading := False,
              error := Some (js ''Invalid response structure from AI model.'')\<rparr>
     \<and> lifecycle_of (fst (handleSubmit rt (Resolved r) st)) = Error"
proof -
  have tb: "try_block rt (Resolved r) =
              Inl (Thrown (js ''Invalid response structure from AI model.''))"
    using try_block_envelope [OF assms(2,3,4), of rt] assms(5) by (simp add: usable_def)
  have ne: "js ''Invalid response structure from AI model.'' \<noteq> []"
    by (simp add: js_def)
  have "fst (handleSubmit rt (Resolved r) st) =
           st\<lparr>plan := None, isLoading := False,
              error := Some (js ''Invalid response structure from AI model.'')\<rparr>"
    using assms(1) ne by (simp add: handleSubmit_accepted resume_thrown [OF tb])
  then show ?thesis by (simp add: lifecycle_of_def)
qed

lemma missing_text_payload_no_candidate:
  "accepted ready_state
   \<and> response_ok (ok_response (JObject [(js ''candidates'', JArray [])]))
   \<and> lookup_path text_path (JObject [(js ''candidates'', JArray [])]) = None
   \<and> error (fst (handleSubmit demo_runtime
        (Resolved (ok_response (JObject [(js ''candidates'', JArray [])]))) ready_state))
       = Some (js ''Invalid response structure from AI model.'')
   \<and> lifecycle_of (fst (handleSubmit demo_runtime
        (Resolved (ok_response (JObject [(js ''candidates'', JArray [])]))) ready_state)) = Error"
proof -
  let ?result = "JObject [(js ''candidates'', JArray [])]"
  have b: "json_body (ok_response ?result) = Inr ?result" by (simp add: ok_response_def)
  have n: "?result \<noteq> JNull" by simp
  have l: "lookup_path text_path ?result = None" by (simp add: text_path_def)
  from missing_text_payload [OF accepted_ready ok_response_ok b n l, of demo_runtime]
    accepted_ready ok_response_ok l
  show ?thesis by (simp add: lifecycle_of_def)
qed

text \<open>
  On a body that is \<^verbatim>\<open>null\<close>, reading \<^verbatim>\<open>result.candidates\<close> throws, and the engine's
  message is the one stored.
\<close>

lemma null_body_engine_message:
  assumes "accepted st" and "response_ok r" and "json_body r = Inr JNull"
    and "message (null_read rt (js ''candidates'')) \<noteq> []"
  shows "fst (handleSubmit rt (Resolved r) st) =
           st\<lparr>plan := None, isLoading := False,
              error := Some (message (null_read rt (js ''candidates'')))\<rparr>"
  using assms(1,4)
  by (simp add: handleSubmit_accepted resume_thrown [OF try_block_null_body [OF assms(2,3)]])

text \<open>
  C8. The claim fails on the code at one body. The document \<^verbatim>\<open>null\<close> lacks the text
  payload: the descent to it fails. Every later link of the chain is read with
  \<^verbatim>\<open>?.\<close>, but \<^verbatim>\<open>result.candidates\<close> is not, so on \<^verbatim>\<open>null\<close> it throws before the
  check of the structure: the run ends in the error state with the message of the
  engine's \<^verbatim>\<open>TypeError\<close>, not with
  \<^verbatim>\<open>Invalid response structure from AI model.\<close>
\<close>

theorem null_body_type_error:
  "lookup_path text_path JNull = None
   \<and> accepted ready_state
   \<and> response_ok (ok_response JNull)
   \<and> json_body (ok_response JNull) = Inr JNull
   \<and> lifecycle_of (fst (handleSubmit demo_runtime (Resolved (ok_response JNull)) ready_state))
       = Error
   \<and> error (fst (handleSubmit demo_runtime (Resolved (ok_response JNull)) ready_state))
       = Some (message (null_read demo_runtime (js ''candidates'')))
   \<and> error (fst (handleSubmit demo_runtime (Resolved (ok_response JNull)) ready_state))
       = Some (js ''Cannot read properties of null'')
   \<and> error (fst (handleSubmit demo_runtime (Resolved (ok_response JNull)) ready_state))
       \<noteq> Some (js ''Invalid response structure from AI model.'')"
proof -
  have b: "json_body (ok_response JNull) = Inr JNull" by (simp add: ok_response_def)
  have m: "message (null_read demo_runtime (js ''candidates'')) = js ''Cannot read properties of null''"
    by (simp add: demo_runtime_def)
  have ne: "js ''Cannot read properties of null'' \<noteq> []" by (simp add: js_def)
  have d: "js ''Cannot read properties of null'' \<noteq> js ''Invalid response structure from AI model.''"
    by (simp add: js_def)
  have e: "fst (handleSubmit demo_runtime (Resolved (ok_response JNull)) ready_state)
             = ready_state\<lparr>plan := None, isLoading := False,
                 error := Some (js ''Cannot read properties of null'')\<rparr>"
    using null_body_engine_message [OF accepted_ready ok_response_ok b, of demo_runtime] ne
    by (simp add: m)
  have l: "lookup_path text_path JNull = None" by (simp add: text_path_def)
  show ?thesis unfolding e
    using l accepted_ready ok_response_ok b d by (simp add: lifecycle_of_def m)
qed

section \<open>The text payload\<close>

text \<open>
  C9, as stated, fails: a text payload that is valid JSON and does not have the Plan
  shape is not rejected. The text of the empty object parses to the empty object, which
  is no Plan; the run ends in the success state with that object stored and no error.
\<close>

theorem unvalidated_plan_stored:
  "as_plan (JObject []) = None
   \<and> accepted ready_state
   \<and> response_ok (ok_response (envelope (JString (js ''{}''))))
   \<and> lookup_path text_path (envelope (JString (js ''{}''))) = Some (JString (js ''{}''))
   \<and> JSON_parse demo_runtime (JString (js ''{}'')) = Inr (JObject [])
   \<and> lifecycle_of (fst (handleSubmit demo_runtime
        (Resolved (ok_response (envelope (JString (js ''{}''))))) ready_state)) = Success
   \<and> plan (fst (handleSubmit demo_runtime
        (Resolved (ok_response (envelope (JString (js ''{}''))))) ready_state)) = Some (JObject [])
   \<and> error (fst (handleSubmit demo_runtime
        (Resolved (ok_response (envelope (JString (js ''{}''))))) ready_state)) = None"
proof -
  let ?t = "JString (js ''{}'')"
  have b: "json_body (ok_response (envelope ?t)) = Inr (envelope ?t)"
    by (simp add: ok_response_def)
  have n: "envelope ?t \<noteq> JNull" by (simp add: envelope_def)
  have p: "JSON_parse demo_runtime ?t = Inr (JObject [])" by (simp add: demo_runtime_def)
  have u: "usable (Some ?t) = Some ?t" by (simp add: usable_def js_def)
  have tb: "try_block demo_runtime (Resolved (ok_response (envelope ?t))) = Inr (JObject [])"
    using try_block_envelope [OF ok_response_ok b n, of demo_runtime]
    by (simp add: lookup_envelope u p)
  have st': "fst (handleSubmit demo_runtime (Resolved (ok_response (envelope ?t))) ready_state)
               = ready_state\<lparr>isLoading := False, error := None, plan := Some (JObject [])\<rparr>"
    by (simp add: handleSubmit_accepted [OF accepted_ready] resume_parsed [OF tb])
  have a: "as_plan (JObject []) = None" by (simp add: as_plan_def)
  show ?thesis unfolding st'
    using a accepted_ready ok_response_ok p by (simp add: lookup_envelope lifecycle_of_def)
qed

text \<open>
  C9, amended. When the response to an accepted submission has a success status and its
  envelope carries a string as the text: an empty text ends the run in the error state
  with the message \<^verbatim>\<open>Invalid response structure from AI model.\<close>; a non-empty text that
  \<^verbatim>\<open>JSON.parse\<close> rejects ends it in the error state, with no plan stored and the message
  of the thrown error (the fixed fallback message when that message is empty); a text
  that \<^verbatim>\<open>JSON.parse\<close> accepts has its value stored as the plan, whatever its shape, with
  no error. Whatever \<^verbatim>\<open>fetch\<close> settles to, the run ends with the loading flag cleared:
  every failure is turned into state.
\<close>

theorem text_payload_parsed:
  assumes "accepted st" and "response_ok r" and "json_body r = Inr result"
    and "lookup_path text_path result = Some (JString t)"
  shows "fst (handleSubmit rt (Resolved r) st) =
           (if t = []
            then st\<lparr>plan := None, isLoading := False,
                    error := Some (js ''Invalid response structure from AI model.'')\<rparr>
            else
              (case JSON_parse rt (JString t) of
                 Inl err \<Rightarrow>
                   st\<lparr>plan := None, isLoading := False,
                      error := Some (if message err \<noteq> [] then message err
                                     else js ''An unexpected error occurred. Please try again.'')\<rparr>
               | Inr v \<Rightarrow>
                   st\<lparr>plan := (if v = JNull then None else Some v), isLoading := False,
                      error := None\<rparr>))
     \<and> (\<forall>err. t \<noteq> [] \<and> JSON_parse rt (JString t) = Inl err \<longrightarrow>
           lifecycle_of (fst (handleSubmit rt (Resolved r) st)) = Error
           \<and> plan (fst (handleSubmit rt (Resolved r) st)) = None)
     \<and> (\<forall>outcome. \<not> isLoading (fst (handleSubmit rt outcome st)))"
proof -
  have n: "result \<noteq> JNull" using assms(4) by (auto simp: text_path_def)
  have ne: "js ''Invalid response structure from AI model.'' \<noteq> []"
    by (simp add: js_def)
  have tb: "try_block rt (Resolved r) =
              (if t = [] then Inl (Thrown (js ''Invalid response structure from AI model.''))
               else JSON_parse rt (JString t))"
    using try_block_envelope [OF assms(2,3) n, of rt] assms(4) by (simp add: usable_def)
  have first: "fst (handleSubmit rt (Resolved r) st) =
           (if t = []
            then st\<lparr>plan := None, isLoading := False,
                    error := Some (js ''Invalid response structure from AI model.'')\<rparr>
            else
              (case JSON_parse rt (JString t) of
                 Inl err \<Rightarrow>
                   st\<lparr>plan := None, isLoading := False,
                      error := Some (if message err \<noteq> [] then message err
                                     else js ''An unexpected error occurred. Please try again.'')\<rparr>
               | Inr v \<Rightarrow>
                   st\<lparr>plan := (if v = JNull then None else Some v), isLoading := False,
                      error := None\<rparr>))"
    using assms(1) tb ne
    by (simp add: handleSubmit_accepted handleSubmit_resume_def split: sum.splits)
  have second: "lifecycle_of (fst (handleSubmit rt (Resolved r) st)) = Error
           \<and> plan (fst (handleSubmit rt (Resolved r) st)) = None"
    if "t \<noteq> [] \<and> JSON_parse rt (JString t) = Inl err" for err
    unfolding first using that by (simp add: lifecycle_of_def)
  have third: "\<not> isLoading (fst (handleSubmit rt outcome st))" for outcome
    using assms(1)
    by (simp add: handleSubmit_accepted handleSubmit_resume_def split: sum.splits)
  from first second third show ?thesis by blast
qed

theorem text_payload_parsed_witness:
  "accepted ready_state
   \<and> response_ok (ok_response (envelope (JString (js ''{''))))
   \<and> lookup_path text_path (envelope (JString (js ''{''))) = Some (JString (js ''{''))
   \<and> JSON_parse demo_runtime (JString (js ''{''))
       = Inl (Thrown (js ''Unexpected end of JSON input''))
   \<and> error (fst (handleSubmit demo_runtime
        (Resolved (ok_response (envelope (JString (js ''{''))))) ready_state))
       = Some (js ''Unexpected end of JSON input'')
   \<and> plan (fst (handleSubmit demo_runtime
        (Resolved (ok_response (envelope (JString (js ''{''))))) ready_state)) = None
   \<and> lifecycle_of (fst (handleSubmit demo_runtime
        (Resolved (ok_response (envelope (JString (js ''{''))))) ready_state)) = Error"
proof -
  let ?t = "JString (js ''{'')"
  have b: "json_body (ok_response (envelope ?t)) = Inr (envelope ?t)"
    by (simp add: ok_response_def)
  have ne: "js ''{'' \<noteq> []" by (simp add: js_def)
  have d: "js ''{'' \<noteq> js ''{}''" by (simp add: js_def)
  have p: "JSON_parse demo_runtime ?t = Inl (Thrown (js ''Unexpected end of JSON input''))"
    using d by (simp add: demo_runtime_def)
  have m: "js ''Unexpected end of JSON input'' \<noteq> []" by (simp add: js_def)
  from text_payload_parsed [OF accepted_ready ok_response_ok b lookup_envelope, of demo_runtime]
  have "fst (handleSubmit demo_runtime (Resolved (ok_response (envelope ?t))) ready_state)
          = ready_state\<lparr>plan := None, isLoading := False,
               error := Some (js ''Unexpected end of JSON input'')\<rparr>"
    using m ne by (simp add: p)
  then show ?thesis
    using accepted_ready ok_response_ok p by (simp add: lookup_envelope lifecycle_of_def)
qed

end
